theory Spec2Isabelle
  imports Main
begin

section \<open>Data model of \<open>src/index.ts\<close>\<close>

text \<open>
  The program keeps one module-level array \<open>books\<close> of plain JavaScript objects and a set
  of GraphQL resolvers that read and edit it.

  A nullable GraphQL value reaches a resolver in one of three shapes: the key is absent
  (a property read yields \<open>undefined\<close>), the value is \<open>null\<close>, or it is a value of the
  declared scalar type. The code only reads properties, so an absent key and a key holding
  \<open>undefined\<close> are the same thing here.

  Strings are \<open>string\<close>, one \<open>char\<close> per code unit, which covers the code units below 256;
  the program only compares strings with \<open>===\<close> and tests them for emptiness. A GraphQL
  \<open>Int\<close> is an \<open>int\<close>: no arithmetic is done on it.
\<close>

datatype 'a nullable = Undefined | Null | Val 'a

datatype Genre = NONE | FICTION | MYSTERY | FANTASY | ROMANCE

text \<open>
  The arguments of \<open>addBook\<close>, as declared in \<open>typeDefs\<close>. A stored book is
  \<open>{ ...args, id: uuid() }\<close>: the same fields and an \<open>id\<close>, hence a record extension.
  The field \<open>id\<close> is named \<open>id_book\<close>, since \<open>id\<close> is the identity function of HOL.
\<close>

record AddBookArgs =
  title :: string
  description :: "string nullable"
  isbn :: "string nullable"
  publisher :: string
  genre :: Genre
  publishYear :: "int nullable"
  authorName :: string
  authorNationality :: "string nullable"

record Book = AddBookArgs +
  id_book :: string

text \<open>The arguments of \<open>updateBook\<close>: \<open>id\<close> is required, every other one is nullable.\<close>

record UpdateBookArgs =
  upd_id :: string
  upd_title :: "string nullable"
  upd_description :: "string nullable"
  upd_isbn :: "string nullable"
  upd_publisher :: "string nullable"
  upd_genre :: "Genre nullable"
  upd_publishYear :: "int nullable"
  upd_authorName :: "string nullable"
  upd_authorNationality :: "string nullable"

record Author =
  name :: string
  nationality :: "string nullable"

text \<open>\<open>new GraphQLError(message, { extensions: { code } })\<close>\<close>

record GraphQLError =
  message :: string
  code :: string

type_synonym store = "Book list"

section \<open>The seed data\<close>

definition books :: store where
  "books =
    [ \<lparr> title = ''The Awakening'',
        description = Val ''The Awakening es una novela de la escritora estadounidense Kate Chopin.'',
        isbn = Undefined,
        publisher = ''W W Norton & Co Inc'',
        genre = NONE,
        publishYear = Val 1899,
        authorName = ''Kate Chopin'',
        authorNationality = Undefined,
        id_book = ''d26fd654-f4d4-4b98-91e5-6d8c9569aed6'' \<rparr>,
      \<lparr> title = ''City of Glass'',
        description = Val ''Ciudad de cristal es el tercer libro de la saga Cazadores de Sombras, escrita por Cassandra Clare. Fue publicada originalmente en Estados Unidos.'',
        isbn = Val ''978-0140097313'',
        publisher = ''Simon & Schuster'',
        genre = FANTASY,
        publishYear = Val 2009,
        authorName = ''Paul Auster'',
        authorNationality = Val ''Estadounidense'',
        id_book = ''35b19ead-3aa9-415e-a46d-6621e1604119'' \<rparr> ]"

section \<open>JavaScript primitives used by the resolvers\<close>

text \<open>
  \<open>Array.prototype.find\<close> is \<^const>\<open>List.find\<close>: the first element satisfying the
  predicate, or \<open>undefined\<close> (\<open>None\<close>). \<open>Array.prototype.findIndex\<close> returns the index of
  that element, or \<open>-1\<close>.
\<close>

fun findIndex :: "('a \<Rightarrow> bool) \<Rightarrow> 'a list \<Rightarrow> int" where
  "findIndex P [] = - 1"
| "findIndex P (x # xs) =
     (if P x then 0
      else (let r = findIndex P xs in if r = - 1 then - 1 else r + 1))"

text \<open>
  \<open>arr.splice(start, deleteCount)\<close> for \<open>0 \<le> start\<close>: the removed elements and the array
  that is left, the later elements shifted down.
\<close>

definition splice_arr :: "'a list \<Rightarrow> nat \<Rightarrow> nat \<Rightarrow> 'a list \<times> 'a list" where
  "splice_arr xs start deleteCount =
     (take deleteCount (drop start xs), take start xs @ drop (start + deleteCount) xs)"

text \<open>\<open>arr[0]\<close>, which is \<open>undefined\<close> on an empty array.\<close>

definition first_elem :: "'a list \<Rightarrow> 'a option" where
  "first_elem xs = (case xs of [] \<Rightarrow> None | x # _ \<Rightarrow> Some x)"

text \<open>
  Truthiness of a nullable value: \<open>undefined\<close>, \<open>null\<close>, the empty string and the number
  \<open>0\<close> are falsy. An enum value is one of five non-empty strings, so it is truthy.
\<close>

fun truthy_string :: "string nullable \<Rightarrow> bool" where
  "truthy_string (Val s) = (s \<noteq> [])"
| "truthy_string _ = False"

fun truthy_int :: "int nullable \<Rightarrow> bool" where
  "truthy_int (Val n) = (n \<noteq> 0)"
| "truthy_int _ = False"

fun truthy_genre :: "Genre nullable \<Rightarrow> bool" where
  "truthy_genre (Val g) = True"
| "truthy_genre _ = False"

text \<open>
  \<open>a ? a : b\<close> where \<open>b\<close> is a field that always holds a value (\<open>cond_req\<close>) and where
  \<open>b\<close> is itself nullable (\<open>cond_opt\<close>). A truthy \<open>a\<close> is a \<open>Val\<close>, so the last equation
  of \<open>cond_req\<close> is only reached when \<open>a\<close> is falsy.
\<close>

fun cond_req :: "('a nullable \<Rightarrow> bool) \<Rightarrow> 'a nullable \<Rightarrow> 'a \<Rightarrow> 'a" where
  "cond_req truthy (Val v) b = (if truthy (Val v) then v else b)"
| "cond_req truthy _ b = b"

definition cond_opt :: "('a nullable \<Rightarrow> bool) \<Rightarrow> 'a nullable \<Rightarrow> 'a nullable \<Rightarrow> 'a nullable" where
  "cond_opt truthy a b = (if truthy a then a else b)"

section \<open>The resolvers\<close>

text \<open>
  Every resolver takes the current content of \<open>books\<close> and returns its result together
  with the content of \<open>books\<close> afterwards. A result that is \<open>undefined\<close> or \<open>null\<close> (GraphQL
  reports both as \<open>null\<close>) is \<open>None\<close>.
\<close>

definition getBooks :: "store \<Rightarrow> Book list \<times> store" where
  "getBooks bs = (bs, bs)"

definition getBooksCount :: "store \<Rightarrow> nat \<times> store" where
  "getBooksCount bs = (length bs, bs)"

text \<open>\<open>getBook(id: String)\<close>: the argument is nullable, and \<open>===\<close> never equates a string
  with \<open>null\<close> or \<open>undefined\<close>.\<close>

definition getBook :: "store \<Rightarrow> string nullable \<Rightarrow> Book option \<times> store" where
  "getBook bs i = (List.find (\<lambda>book. Val (id_book book) = i) bs, bs)"

definition author :: "store \<Rightarrow> Book \<Rightarrow> Author \<times> store" where
  "author bs root = (\<lparr> name = authorName root, nationality = authorNationality root \<rparr>, bs)"

text \<open>The message of the error thrown by \<open>addBook\<close>, a Spanish sentence. Its second
  letter (i with an acute accent) is the code unit 0xED and the first letter of its last
  word (u with an acute accent) is the code unit 0xFA.\<close>

definition title_unique_message :: string where
  "title_unique_message = ''T'' @ [CHR 0xED] @ ''tulo es una valor '' @ [CHR 0xFA] @ ''nico''"

definition title_unique_error :: GraphQLError where
  "title_unique_error = \<lparr> message = title_unique_message, code = ''BAD_USER_INPUT'' \<rparr>"

text \<open>
  \<open>addBook\<close>. The call \<open>uuid()\<close> belongs to an external library and draws a random
  identifier; its result is the parameter \<open>uuid\<close>, consulted only on the path that reaches
  the call. A \<open>throw\<close> is the left injection, and leaves \<open>books\<close> as it was.
\<close>

definition addBook :: "store \<Rightarrow> AddBookArgs \<Rightarrow> string \<Rightarrow> (GraphQLError + Book) \<times> store" where
  "addBook bs args uuid =
     (case List.find (\<lambda>book. title book = title args) bs of
        Some _ \<Rightarrow> (Inl title_unique_error, bs)
      | None \<Rightarrow>
          (let newBook = AddBookArgs.extend args (Book.fields uuid)
           in (Inr newBook, bs @ [newBook])))"

text \<open>\<open>updateBook\<close>. The object literal bound to \<open>updatedBook\<close> is a function of the stored
  book and the arguments; the spread \<open>...book\<close> keeps \<open>id\<close>.\<close>

definition updatedBook :: "Book \<Rightarrow> UpdateBookArgs \<Rightarrow> Book" where
  "updatedBook book args = book
     \<lparr> title := cond_req truthy_string (upd_title args) (title book),
       description := cond_opt truthy_string (upd_description args) (description book),
       isbn := cond_opt truthy_string (upd_isbn args) (isbn book),
       publisher := cond_req truthy_string (upd_publisher args) (publisher book),
       genre := cond_req truthy_genre (upd_genre args) (genre book),
       publishYear := cond_opt truthy_int (upd_publishYear args) (publishYear book),
       authorName := cond_req truthy_string (upd_authorName args) (authorName book),
       authorNationality :=
         cond_opt truthy_string (upd_authorNationality args) (authorNationality book) \<rparr>"

definition updateBook :: "store \<Rightarrow> UpdateBookArgs \<Rightarrow> Book option \<times> store" where
  "updateBook bs args =
     (let updatedBookIndex = findIndex (\<lambda>book. id_book book = upd_id args) bs in
      if updatedBookIndex = - 1 then (None, bs)
      else
        (let book = bs ! nat updatedBookIndex;
             ub = updatedBook book args
         in (Some ub, bs[nat updatedBookIndex := ub])))"

text \<open>\<open>deleteBook\<close>. The index passed to \<open>splice\<close> is not \<open>-1\<close>, hence not negative.\<close>

definition deleteBook :: "store \<Rightarrow> string \<Rightarrow> Book option \<times> store" where
  "deleteBook bs i =
     (let deletedBookIndex = findIndex (\<lambda>book. id_book book = i) bs in
      if deletedBookIndex = - 1 then (None, bs)
      else
        (let (removed, bs') = splice_arr bs (nat deletedBookIndex) 1
         in (first_elem removed, bs')))"

section \<open>Reachable contents of the store\<close>

text \<open>
  The contents that \<open>books\<close> takes as long as \<open>uuid()\<close> never draws an identifier that is
  in use: the seed data, and whatever the three mutations make of such a content. The
  premise on the identifier is a condition on the generator; \<open>addBook\<close> does not test it.
\<close>

inductive reachable :: "store \<Rightarrow> bool" where
  init: "reachable books"
| add: "reachable bs \<Longrightarrow> \<forall>b \<in> set bs. id_book b \<noteq> uuid \<Longrightarrow> reachable (snd (addBook bs args uuid))"
| update: "reachable bs \<Longrightarrow> reachable (snd (updateBook bs args))"
| delete: "reachable bs \<Longrightarrow> reachable (snd (deleteBook bs i))"

code_pred reachable .

section \<open>Sample inputs\<close>

text \<open>Concrete arguments on which the theorems below are exercised against the seed data.\<close>

definition example_args :: AddBookArgs where
  "example_args =
     \<lparr> title = ''Moon Palace'', description = Null, isbn = Undefined,
       publisher = ''Viking Press'', genre = FICTION, publishYear = Val 1989,
       authorName = ''Paul Auster'', authorNationality = Val ''Estadounidense'' \<rparr>"

definition example_uuid :: string where
  "example_uuid = ''9b2f6c1e-7a44-4c57-8f0d-3e5a1b7c9d20''"

definition example_update :: UpdateBookArgs where
  "example_update =
     \<lparr> upd_id = ''d26fd654-f4d4-4b98-91e5-6d8c9569aed6'', upd_title = Val ''City of Glass'',
       upd_description = Undefined, upd_isbn = Undefined, upd_publisher = Undefined,
       upd_genre = Undefined, upd_publishYear = Undefined, upd_authorName = Undefined,
       upd_authorNationality = Undefined \<rparr>"

definition falsy_update :: UpdateBookArgs where
  "falsy_update =
     \<lparr> upd_id = ''35b19ead-3aa9-415e-a46d-6621e1604119'', upd_title = Val [],
       upd_description = Val [], upd_isbn = Null, upd_publisher = Val ''Penguin'',
       upd_genre = Val NONE, upd_publishYear = Val 0, upd_authorName = Undefined,
       upd_authorNationality = Val [] \<rparr>"

text \<open>
  An identifier that the first seed book already carries, and the book that \<open>addBook\<close> builds
  from \<open>example_args\<close> when \<open>uuid()\<close> returns it. The code compares no identifiers before it
  pushes, so this is the content it would store.
\<close>

definition colliding_uuid :: string where
  "colliding_uuid = ''d26fd654-f4d4-4b98-91e5-6d8c9569aed6''"

definition colliding_book :: Book where
  "colliding_book = AddBookArgs.extend example_args (Book.fields colliding_uuid)"

section \<open>Facts about the primitives and the resolvers\<close>

subsection \<open>\<open>findIndex\<close>, \<open>find\<close> and \<open>splice\<close>\<close>

lemma findIndex_ge: "- 1 \<le> findIndex P xs"
  by (induction xs) (auto simp: Let_def)

lemma findIndex_none: "findIndex P xs = - 1 \<longleftrightarrow> (\<forall>x \<in> set xs. \<not> P x)"
proof (induction xs)
  case Nil
  show ?case by simp
next
  case (Cons x xs)
  have "- 1 \<le> findIndex P xs" by (rule findIndex_ge)
  with Cons show ?case by (auto simp: Let_def)
qed

lemma findIndex_some:
  "findIndex P xs \<noteq> - 1 \<Longrightarrow>
     0 \<le> findIndex P xs \<and> nat (findIndex P xs) < length xs \<and> P (xs ! nat (findIndex P xs))
     \<and> (\<forall>j < nat (findIndex P xs). \<not> P (xs ! j))"
proof (induction xs)
  case Nil
  then show ?case by simp
next
  case (Cons x xs)
  show ?case
  proof (cases "P x")
    case True
    then show ?thesis by simp
  next
    case False
    with Cons.prems have ne: "findIndex P xs \<noteq> - 1" by (auto simp: Let_def split: if_splits)
    from Cons.IH[OF ne] False ne show ?thesis
      by (auto simp: Let_def nat_add_distrib nth_Cons split: nat.splits)
  qed
qed

lemma findIndex_first:
  "\<forall>x \<in> set pre. \<not> P x \<Longrightarrow> P b \<Longrightarrow> findIndex P (pre @ b # post) = int (length pre)"
  by (induction pre) (auto simp: Let_def)

lemma findIndex_split:
  assumes "\<exists>x \<in> set xs. P x"
  shows "\<exists>pre b post. xs = pre @ b # post \<and> P b \<and> (\<forall>x \<in> set pre. \<not> P x)
           \<and> findIndex P xs = int (length pre)"
proof -
  from assms obtain pre b post where
    xs: "xs = pre @ b # post" and b: "P b" and pre: "\<forall>x \<in> set pre. \<not> P x"
    using split_list_first_prop[OF assms] by blast
  from findIndex_first[OF pre b] xs b pre show ?thesis by blast
qed

lemma first_split_unique:
  assumes "pre @ b # post = pre' @ b' # post'"
    and "P b" and "\<forall>x \<in> set pre. \<not> P x"
    and "P b'" and "\<forall>x \<in> set pre'. \<not> P x"
  shows "pre = pre' \<and> b = b' \<and> post = post'"
proof -
  have "findIndex P (pre @ b # post) = int (length pre)"
    using assms(3,2) by (rule findIndex_first)
  moreover have "findIndex P (pre' @ b' # post') = int (length pre')"
    using assms(5,4) by (rule findIndex_first)
  ultimately have "length pre = length pre'"
    using assms(1) by simp
  with assms(1) show ?thesis by simp
qed

lemma find_skip: "\<forall>x \<in> set xs. \<not> P x \<Longrightarrow> List.find P (xs @ ys) = List.find P ys"
  by (induction xs) auto

lemma find_append_first:
  "List.find P (xs @ ys) = (case List.find P xs of None \<Rightarrow> List.find P ys | Some x \<Rightarrow> Some x)"
  by (induction xs) auto

lemma splice_one: "splice_arr (pre @ b # post) (length pre) (Suc 0) = ([b], pre @ post)"
  by (simp add: splice_arr_def)

subsection \<open>The resolvers on a store split at the first match\<close>

lemma getBook_Val: "fst (getBook bs (Val i)) = List.find (\<lambda>book. id_book book = i) bs"
  by (simp add: getBook_def)

lemma getBook_absent:
  "\<forall>b \<in> set bs. Val (id_book b) \<noteq> i \<Longrightarrow> getBook bs i = (None, bs)"
  by (simp add: getBook_def find_None_iff)

lemma deleteBook_split:
  assumes "\<forall>x \<in> set pre. id_book x \<noteq> i" and "id_book b = i"
  shows "deleteBook (pre @ b # post) i = (Some b, pre @ post)"
proof -
  have "findIndex (\<lambda>book. id_book book = i) (pre @ b # post) = int (length pre)"
    using assms by (intro findIndex_first) auto
  then show ?thesis
    by (simp add: deleteBook_def splice_one first_elem_def)
qed

lemma deleteBook_absent:
  assumes "i \<notin> id_book ` set bs"
  shows "deleteBook bs i = (None, bs)"
proof -
  have "findIndex (\<lambda>book. id_book book = i) bs = - 1"
    using assms by (auto simp: findIndex_none)
  then show ?thesis by (simp add: deleteBook_def)
qed

lemma updateBook_absent:
  assumes "upd_id args \<notin> id_book ` set bs"
  shows "updateBook bs args = (None, bs)"
proof -
  have "findIndex (\<lambda>book. id_book book = upd_id args) bs = - 1"
    using assms by (force simp: findIndex_none)
  then show ?thesis by (simp add: updateBook_def)
qed

lemma updateBook_split:
  assumes "\<forall>x \<in> set pre. id_book x \<noteq> upd_id args" and "id_book b = upd_id args"
  shows "updateBook (pre @ b # post) args = (Some (updatedBook b args), pre @ updatedBook b args # post)"
proof -
  have "findIndex (\<lambda>book. id_book book = upd_id args) (pre @ b # post) = int (length pre)"
    using assms by (intro findIndex_first) auto
  then show ?thesis
    by (simp add: updateBook_def Let_def)
qed

lemma id_book_updatedBook: "id_book (updatedBook b args) = id_book b"
  by (simp add: updatedBook_def)

lemma addBook_cases:
  "addBook bs args uuid =
     (if \<exists>b \<in> set bs. title b = title args then (Inl title_unique_error, bs)
      else (Inr (AddBookArgs.extend args (Book.fields uuid)),
            bs @ [AddBookArgs.extend args (Book.fields uuid)]))"
proof (cases "\<exists>b \<in> set bs. title b = title args")
  case True
  then have "List.find (\<lambda>book. title book = title args) bs \<noteq> None"
    unfolding find_None_iff by blast
  then obtain b where "List.find (\<lambda>book. title book = title args) bs = Some b"
    by blast
  with True show ?thesis by (simp add: addBook_def)
next
  case False
  then have "List.find (\<lambda>book. title book = title args) bs = None"
    unfolding find_None_iff by blast
  with False show ?thesis by (simp add: addBook_def Let_def)
qed

lemma id_book_extend: "id_book (AddBookArgs.extend args (Book.fields uuid)) = uuid"
  by (simp add: AddBookArgs.extend_def Book.fields_def)

lemma truncate_extend: "AddBookArgs.truncate (AddBookArgs.extend args (Book.fields uuid)) = args"
  by (simp add: AddBookArgs.extend_def AddBookArgs.truncate_def)

subsection \<open>Identifiers stay pairwise distinct\<close>

text \<open>
  The seed identifiers differ, \<open>updateBook\<close> keeps every identifier, \<open>deleteBook\<close> removes
  one, and \<open>addBook\<close> adds the identifier it is given. Hence, as long as the generator
  draws unused identifiers, the store never holds two books with one identifier.
\<close>

lemma updateBook_ids: "map id_book (snd (updateBook bs args)) = map id_book bs"
proof (cases "\<exists>x \<in> set bs. id_book x = upd_id args")
  case True
  from findIndex_split[OF True] obtain pre b post where
    "bs = pre @ b # post" "id_book b = upd_id args" "\<forall>x \<in> set pre. id_book x \<noteq> upd_id args"
    by blast
  then show ?thesis by (simp add: updateBook_split id_book_updatedBook)
next
  case False
  then have "upd_id args \<notin> id_book ` set bs" by auto
  then show ?thesis by (simp add: updateBook_absent)
qed

lemma deleteBook_ids_distinct:
  assumes "distinct (map id_book bs)"
  shows "distinct (map id_book (snd (deleteBook bs i)))"
proof (cases "\<exists>x \<in> set bs. id_book x = i")
  case True
  from findIndex_split[OF True] obtain pre b post where
    "bs = pre @ b # post" "id_book b = i" "\<forall>x \<in> set pre. id_book x \<noteq> i"
    by blast
  with assms show ?thesis by (simp add: deleteBook_split)
next
  case False
  then have "i \<notin> id_book ` set bs" by auto
  with assms show ?thesis by (simp add: deleteBook_absent)
qed

lemma addBook_ids_distinct:
  assumes "distinct (map id_book bs)" and "\<forall>b \<in> set bs. id_book b \<noteq> uuid"
  shows "distinct (map id_book (snd (addBook bs args uuid)))"
  using assms by (auto simp: addBook_cases id_book_extend)

lemma books_ids_distinct: "distinct (map id_book books)"
  by (simp add: books_def)

lemma reachable_ids_distinct: "reachable bs \<Longrightarrow> distinct (map id_book bs)"
proof (induction rule: reachable.induct)
  case init
  show ?case by (rule books_ids_distinct)
next
  case (add bs uuid args)
  then show ?case by (simp add: addBook_ids_distinct)
next
  case (update bs args)
  then show ?case by (simp add: updateBook_ids)
next
  case (delete bs i)
  then show ?case by (simp add: deleteBook_ids_distinct)
qed

subsection \<open>The seed data\<close>

lemma books_split:
  "books = [hd books] @ (last books) # []"
  by (simp add: books_def)

lemma deleteBook_books_first:
  "deleteBook books ''d26fd654-f4d4-4b98-91e5-6d8c9569aed6'' = (Some (hd books), tl books)"
  by (simp add: deleteBook_def books_def splice_arr_def first_elem_def)

lemma seed_scenario:
  "fst (getBooksCount books) = 2
   \<and> (\<exists>b. fst (getBook books (Val ''35b19ead-3aa9-415e-a46d-6621e1604119'')) = Some b
         \<and> title b = ''City of Glass''
         \<and> name (fst (author books b)) = ''Paul Auster'')"
  by (simp add: getBooksCount_def getBook_def author_def books_def)

lemma addBook_colliding:
  "addBook books example_args colliding_uuid = (Inr colliding_book, books @ [colliding_book])"
proof -
  have "\<not> (\<exists>b \<in> set books. title b = title example_args)"
    by (simp add: books_def example_args_def)
  then show ?thesis
    by (simp add: addBook_cases colliding_book_def)
qed

lemma updateBook_seed_duplicate:
  "updateBook books example_update
     = (Some ((hd books)\<lparr> title := ''City of Glass'' \<rparr>),
        [(hd books)\<lparr> title := ''City of Glass'' \<rparr>, last books])"
proof -
  have "findIndex (\<lambda>book. id_book book = upd_id example_update) books = 0"
    by (simp add: books_def example_update_def)
  moreover have "updatedBook (books ! 0) example_update = (hd books)\<lparr> title := ''City of Glass'' \<rparr>"
    by (simp add: updatedBook_def example_update_def cond_opt_def books_def)
  moreover have "books[0 := v] = [v, last books]" for v
    by (simp add: books_def)
  ultimately show ?thesis
    by (simp add: updateBook_def Let_def)
qed

section \<open>The claims\<close>

text \<open>
  C1. When some stored book has the title given in the arguments, \<open>addBook\<close> throws the
  error whose code is \<open>BAD_USER_INPUT\<close> and whose message is the Spanish constant of the
  source, and the store is what it was: the same sequence of books, hence the same
  \<open>getBooksCount()\<close>.
\<close>

theorem addBook_duplicate_title_rejected:
  assumes "\<exists>b \<in> set bs. title b = title args"
  shows "addBook bs args uuid = (Inl title_unique_error, bs)
       \<and> code title_unique_error = ''BAD_USER_INPUT''
       \<and> message title_unique_error = title_unique_message
       \<and> fst (getBooksCount (snd (addBook bs args uuid))) = fst (getBooksCount bs)
       \<and> fst (getBooks (snd (addBook bs args uuid))) = fst (getBooks bs)"
  using assms by (simp add: addBook_cases title_unique_error_def)

theorem addBook_duplicate_title_rejected_witness:
  "(\<exists>b \<in> set books. title b = ''City of Glass'')
   \<and> addBook books
        \<lparr> title = ''City of Glass'', description = Undefined, isbn = Undefined,
          publisher = ''Faber'', genre = MYSTERY, publishYear = Val 1985,
          authorName = ''Paul Auster'', authorNationality = Null \<rparr> ''0b0e7a36-5d5c-4c0a-9d6b-0a8a3c1f2e11''
       = (Inl \<lparr> message = title_unique_message, code = ''BAD_USER_INPUT'' \<rparr>, books)"
proof -
  have h: "\<exists>b \<in> set books. title b = title \<lparr> title = ''City of Glass'', description = Undefined, isbn = Undefined,
          publisher = ''Faber'', genre = MYSTERY, publishYear = Val 1985,
          authorName = ''Paul Auster'', authorNationality = Null \<rparr>"
    by (simp add: books_def)
  from addBook_duplicate_title_rejected[OF h, of "''0b0e7a36-5d5c-4c0a-9d6b-0a8a3c1f2e11''"] h
  show ?thesis by (simp add: title_unique_error_def)
qed

text \<open>
  C2. For an \<open>id\<close> that no stored book carries, \<open>getBook(id)\<close>, \<open>updateBook({id, ...})\<close> and
  \<open>deleteBook(id)\<close> return null and leave the store as it was. None of the three can throw:
  their results have no error component. A \<open>getBook\<close> whose nullable argument is \<open>null\<close> or
  absent finds nothing either.
\<close>

theorem not_found_is_null:
  assumes "\<forall>b \<in> set bs. id_book b \<noteq> i" and "upd_id args = i"
  shows "getBook bs (Val i) = (None, bs)
       \<and> updateBook bs args = (None, bs)
       \<and> deleteBook bs i = (None, bs)
       \<and> getBook bs Null = (None, bs)
       \<and> getBook bs Undefined = (None, bs)"
proof -
  from assms have "upd_id args \<notin> id_book ` set bs" and "i \<notin> id_book ` set bs"
    by auto
  then have "updateBook bs args = (None, bs)" and "deleteBook bs i = (None, bs)"
    by (simp_all add: updateBook_absent deleteBook_absent)
  moreover from assms have "getBook bs (Val i) = (None, bs)"
    by (simp add: getBook_absent)
  moreover have "getBook bs Null = (None, bs)" "getBook bs Undefined = (None, bs)"
    by (simp_all add: getBook_absent)
  ultimately show ?thesis by simp
qed

theorem not_found_is_null_witness:
  "\<not> (\<exists>b \<in> set books. id_book b = example_uuid)
   \<and> upd_id (example_update\<lparr> upd_id := example_uuid \<rparr>) = example_uuid
   \<and> getBook books (Val example_uuid) = (None, books)
   \<and> updateBook books (example_update\<lparr> upd_id := example_uuid \<rparr>) = (None, books)
   \<and> deleteBook books example_uuid = (None, books)"
proof -
  have h: "\<forall>b \<in> set books. id_book b \<noteq> example_uuid"
    by (simp add: books_def example_uuid_def)
  from not_found_is_null[OF h, of "example_update\<lparr> upd_id := example_uuid \<rparr>"] h
  show ?thesis by simp
qed

text \<open>
  C3. When no stored book has the title given in the arguments, \<open>addBook\<close> succeeds: the new
  book is appended at the end of the store, \<open>getBooksCount()\<close> grows by one, the new book
  carries the identifier that \<open>uuid()\<close> returned, every scalar field equals the argument of
  the same name, and its \<open>author\<close> is the pair of \<open>authorName\<close> and \<open>authorNationality\<close>.
  \<open>addBook\<close> does not compare that identifier with the stored ones. \<open>getBook\<close> of the new
  identifier returns the first book that carries it: an older book if there is one, the new
  book otherwise, hence the new book whenever the identifier was not in use.
\<close>

theorem addBook_new_title_appends:
  assumes "\<forall>b \<in> set bs. title b \<noteq> title args"
  shows "\<exists>newBook.
           addBook bs args uuid = (Inr newBook, bs @ [newBook])
         \<and> fst (getBooksCount (bs @ [newBook])) = fst (getBooksCount bs) + 1
         \<and> id_book newBook = uuid
         \<and> title newBook = title args
         \<and> description newBook = description args
         \<and> isbn newBook = isbn args
         \<and> publisher newBook = publisher args
         \<and> genre newBook = genre args
         \<and> publishYear newBook = publishYear args
         \<and> authorName newBook = authorName args
         \<and> authorNationality newBook = authorNationality args
         \<and> fst (author (bs @ [newBook]) newBook)
             = \<lparr> name = authorName args, nationality = authorNationality args \<rparr>
         \<and> fst (getBook (bs @ [newBook]) (Val (id_book newBook)))
             = (case List.find (\<lambda>book. id_book book = uuid) bs of
                  None \<Rightarrow> Some newBook
                | Some old \<Rightarrow> Some old)
         \<and> ((\<forall>b \<in> set bs. id_book b \<noteq> uuid) \<longrightarrow>
              fst (getBook (bs @ [newBook]) (Val (id_book newBook))) = Some newBook)"
proof -
  define newBook where "newBook = AddBookArgs.extend args (Book.fields uuid)"
  have add: "addBook bs args uuid = (Inr newBook, bs @ [newBook])"
    using assms by (simp add: addBook_cases newBook_def)
  have i: "id_book newBook = uuid"
    by (simp add: newBook_def id_book_extend)
  have get: "fst (getBook (bs @ [newBook]) (Val (id_book newBook)))
             = (case List.find (\<lambda>book. id_book book = uuid) bs of
                  None \<Rightarrow> Some newBook
                | Some old \<Rightarrow> Some old)"
    by (simp add: getBook_Val find_append_first i split: option.splits)
  have fresh: "fst (getBook (bs @ [newBook]) (Val (id_book newBook))) = Some newBook"
    if "\<forall>b \<in> set bs. id_book b \<noteq> uuid"
  proof -
    from that have "List.find (\<lambda>book. id_book book = uuid) bs = None"
      by (simp add: find_None_iff)
    with get show ?thesis by simp
  qed
  have fields: "title newBook = title args" "description newBook = description args"
    "isbn newBook = isbn args" "publisher newBook = publisher args"
    "genre newBook = genre args" "publishYear newBook = publishYear args"
    "authorName newBook = authorName args" "authorNationality newBook = authorNationality args"
    by (simp_all add: newBook_def AddBookArgs.extend_def)
  have cnt: "fst (getBooksCount (bs @ [newBook])) = fst (getBooksCount bs) + 1"
    by (simp add: getBooksCount_def)
  have auth: "fst (author (bs @ [newBook]) newBook)
             = \<lparr> name = authorName args, nationality = authorNationality args \<rparr>"
    by (simp add: author_def fields)
  from add cnt i get fresh fields auth show ?thesis by blast
qed

theorem addBook_new_title_appends_witness:
  "\<not> (\<exists>b \<in> set books. title b = title example_args)
   \<and> \<not> (\<exists>b \<in> set books. id_book b = example_uuid)
   \<and> (\<exists>newBook. addBook books example_args example_uuid = (Inr newBook, books @ [newBook])
         \<and> id_book newBook = example_uuid
         \<and> fst (getBook (books @ [newBook]) (Val example_uuid)) = Some newBook
         \<and> title newBook = ''Moon Palace'')"
proof -
  have h1: "\<forall>b \<in> set books. title b \<noteq> title example_args"
    by (simp add: books_def example_args_def)
  have h2: "\<forall>b \<in> set books. id_book b \<noteq> example_uuid"
    by (simp add: books_def example_uuid_def)
  have t: "title example_args = ''Moon Palace''"
    by (simp add: example_args_def)
  from addBook_new_title_appends[OF h1, of example_uuid] h2 obtain newBook where
    "addBook books example_args example_uuid = (Inr newBook, books @ [newBook])"
    "id_book newBook = example_uuid"
    "fst (getBook (books @ [newBook]) (Val (id_book newBook))) = Some newBook"
    "title newBook = title example_args"
    by blast
  with h1 h2 t show ?thesis by auto
qed

text \<open>
  As stated for every store, with an identifier unequal to every stored one and a lookup
  that returns the new book, C3 fails when \<open>uuid()\<close> returns the identifier of the first seed
  book: \<open>addBook\<close> succeeds, the new book shares its identifier with \<open>The Awakening\<close>, and
  \<open>getBook\<close> of that identifier returns \<open>The Awakening\<close>, not the book titled \<open>Moon Palace\<close>.
\<close>

theorem addBook_uuid_collision_counterexample:
  "\<not> (\<exists>b \<in> set books. title b = title example_args)
   \<and> addBook books example_args colliding_uuid = (Inr colliding_book, books @ [colliding_book])
   \<and> hd books \<in> set books
   \<and> id_book colliding_book = id_book (hd books)
   \<and> fst (getBook (books @ [colliding_book]) (Val (id_book colliding_book))) = Some (hd books)
   \<and> title (hd books) = ''The Awakening''
   \<and> title example_args = ''Moon Palace''"
proof -
  have a: "\<not> (\<exists>b \<in> set books. title b = title example_args)"
    by (simp add: books_def example_args_def)
  have i: "id_book colliding_book = colliding_uuid"
    by (simp add: colliding_book_def id_book_extend)
  have b: "hd books \<in> set books" "id_book (hd books) = colliding_uuid"
    "title (hd books) = ''The Awakening''"
    by (simp_all add: books_def colliding_uuid_def)
  have "List.find (\<lambda>book. id_book book = colliding_uuid) books = Some (hd books)"
    by (simp add: books_def colliding_uuid_def)
  then have g: "fst (getBook (books @ [colliding_book]) (Val (id_book colliding_book)))
                  = Some (hd books)"
    by (simp add: getBook_Val find_append_first i)
  have t: "title example_args = ''Moon Palace''"
    by (simp add: example_args_def)
  from a addBook_colliding b i g t show ?thesis by simp
qed

text \<open>
  C4. \<open>getBooksCount()\<close> is the number of elements of the sequence that \<open>getBooks()\<close>
  returns, in every store.
\<close>

theorem getBooksCount_is_length_of_getBooks:
  "fst (getBooksCount bs) = length (fst (getBooks bs))"
  by (simp add: getBooksCount_def getBooks_def)

text \<open>
  C5. When some stored book carries the given \<open>id\<close>, \<open>deleteBook(id)\<close> returns the first such
  book \<open>b\<close>; the store \<open>pre @ b # post\<close> becomes \<open>pre @ post\<close>, so the other books keep their
  relative order and \<open>getBooksCount()\<close> drops by one. A following \<open>getBook(id)\<close> returns the
  next book carrying \<open>id\<close>, the first one in \<open>post\<close>, and null when there is none; it is null
  in every store whose identifiers are pairwise distinct.
\<close>

theorem deleteBook_removes_first_match:
  assumes "\<exists>b \<in> set bs. id_book b = i"
  shows "\<exists>pre b post.
           bs = pre @ b # post
         \<and> id_book b = i
         \<and> (\<forall>x \<in> set pre. id_book x \<noteq> i)
         \<and> deleteBook bs i = (Some b, pre @ post)
         \<and> fst (getBooksCount (pre @ post)) + 1 = fst (getBooksCount bs)
         \<and> fst (getBook (pre @ post) (Val i)) = List.find (\<lambda>book. id_book book = i) post
         \<and> (distinct (map id_book bs) \<longrightarrow> fst (getBook (pre @ post) (Val i)) = None)"
proof -
  from findIndex_split[OF assms] obtain pre b post where
    bs: "bs = pre @ b # post" and b: "id_book b = i" and pre: "\<forall>x \<in> set pre. id_book x \<noteq> i"
    by blast
  have del: "deleteBook bs i = (Some b, pre @ post)"
    unfolding bs using pre b by (rule deleteBook_split)
  have cnt: "fst (getBooksCount (pre @ post)) + 1 = fst (getBooksCount bs)"
    by (simp add: bs getBooksCount_def)
  have nxt: "fst (getBook (pre @ post) (Val i)) = List.find (\<lambda>book. id_book book = i) post"
    using pre by (simp add: getBook_Val find_skip)
  have gone: "fst (getBook (pre @ post) (Val i)) = None" if "distinct (map id_book bs)"
  proof -
    from that have "id_book b \<notin> set (map id_book post)"
      by (simp add: bs)
    then have "\<forall>x \<in> set post. id_book x \<noteq> id_book b"
      by (auto simp: image_iff)
    with b have "List.find (\<lambda>book. id_book book = i) post = None"
      by (simp add: find_None_iff)
    with nxt show ?thesis by simp
  qed
  from bs b pre del cnt nxt gone show ?thesis by blast
qed

theorem deleteBook_removes_first_match_witness:
  "(\<exists>b \<in> set books. id_book b = ''d26fd654-f4d4-4b98-91e5-6d8c9569aed6'')
   \<and> distinct (map id_book books)
   \<and> (\<exists>b. deleteBook books ''d26fd654-f4d4-4b98-91e5-6d8c9569aed6'' = (Some b, tl books)
         \<and> title b = ''The Awakening'')
   \<and> fst (getBooksCount (tl books)) + 1 = fst (getBooksCount books)
   \<and> fst (getBook (tl books) (Val ''d26fd654-f4d4-4b98-91e5-6d8c9569aed6'')) = None"
proof -
  let ?i = "''d26fd654-f4d4-4b98-91e5-6d8c9569aed6''"
  have h: "\<exists>b \<in> set books. id_book b = ?i"
    by (simp add: books_def)
  have d: "distinct (map id_book books)"
    by (rule books_ids_distinct)
  from deleteBook_removes_first_match[OF h] d obtain pre b post where
    del: "deleteBook books ?i = (Some b, pre @ post)"
    and cnt: "fst (getBooksCount (pre @ post)) + 1 = fst (getBooksCount books)"
    and gone: "fst (getBook (pre @ post) (Val ?i)) = None"
    by blast
  from del have b: "b = hd books" and rest: "pre @ post = tl books"
    by (simp_all add: deleteBook_books_first)
  have "title (hd books) = ''The Awakening''"
    by (simp add: books_def)
  with h d del cnt gone show ?thesis
    unfolding b rest by blast
qed

text \<open>
  As stated for every store holding the \<open>id\<close>, C5 fails on a store in which two books carry
  it. Such a store is what \<open>addBook\<close> leaves on the seed data when \<open>uuid()\<close> returns the
  identifier of the first seed book: \<open>deleteBook\<close> of that identifier then removes
  \<open>The Awakening\<close>, and the following \<open>getBook\<close> returns the added book, not null.
\<close>

theorem deleteBook_duplicate_id_counterexample:
  "addBook books example_args colliding_uuid = (Inr colliding_book, books @ [colliding_book])
   \<and> (\<exists>b \<in> set (books @ [colliding_book]). id_book b = colliding_uuid)
   \<and> deleteBook (books @ [colliding_book]) colliding_uuid
        = (Some (hd books), [last books, colliding_book])
   \<and> fst (getBook [last books, colliding_book] (Val colliding_uuid)) = Some colliding_book"
proof -
  have i: "id_book colliding_book = colliding_uuid"
    by (simp add: colliding_book_def id_book_extend)
  have s: "books @ [colliding_book] = [] @ hd books # [last books, colliding_book]"
    by (simp add: books_def)
  have h: "id_book (hd books) = colliding_uuid"
    by (simp add: books_def colliding_uuid_def)
  have "deleteBook ([] @ hd books # [last books, colliding_book]) colliding_uuid
          = (Some (hd books), [] @ [last books, colliding_book])"
    using h by (intro deleteBook_split) simp_all
  then have d: "deleteBook (books @ [colliding_book]) colliding_uuid
                  = (Some (hd books), [last books, colliding_book])"
    by (simp add: s)
  have "id_book (last books) \<noteq> colliding_uuid"
    by (simp add: books_def colliding_uuid_def)
  then have g: "fst (getBook [last books, colliding_book] (Val colliding_uuid)) = Some colliding_book"
    by (simp add: getBook_Val i)
  have e: "\<exists>b \<in> set (books @ [colliding_book]). id_book b = colliding_uuid"
    using i by auto
  from addBook_colliding e d g show ?thesis by simp
qed

text \<open>
  C6. When some stored book carries the given \<open>id\<close>, \<open>updateBook({id, title: X})\<close> with a
  non-empty \<open>X\<close> and every other argument absent returns the first such book \<open>b\<close> with its
  title replaced by \<open>X\<close> and nothing else changed, and writes it at the position of \<open>b\<close>:
  the store \<open>pre @ b # post\<close> becomes \<open>pre @ b\<lparr>title := X\<rparr> # post\<close>.
\<close>

theorem updateBook_title_only:
  assumes "\<exists>b \<in> set bs. id_book b = i" and "X \<noteq> []"
  shows "\<exists>pre b post.
           bs = pre @ b # post
         \<and> id_book b = i
         \<and> (\<forall>x \<in> set pre. id_book x \<noteq> i)
         \<and> updateBook bs
              \<lparr> upd_id = i, upd_title = Val X, upd_description = Undefined, upd_isbn = Undefined,
                upd_publisher = Undefined, upd_genre = Undefined, upd_publishYear = Undefined,
                upd_authorName = Undefined, upd_authorNationality = Undefined \<rparr>
             = (Some (b\<lparr> title := X \<rparr>), pre @ b\<lparr> title := X \<rparr> # post)"
proof -
  let ?args = "\<lparr> upd_id = i, upd_title = Val X, upd_description = Undefined, upd_isbn = Undefined,
                upd_publisher = Undefined, upd_genre = Undefined, upd_publishYear = Undefined,
                upd_authorName = Undefined, upd_authorNationality = Undefined \<rparr>"
  from findIndex_split[OF assms(1)] obtain pre b post where
    bs: "bs = pre @ b # post" and b: "id_book b = i" and pre: "\<forall>x \<in> set pre. id_book x \<noteq> i"
    by blast
  have "updateBook (pre @ b # post) ?args = (Some (updatedBook b ?args), pre @ updatedBook b ?args # post)"
    using pre b by (intro updateBook_split) simp_all
  moreover have "updatedBook b ?args = b\<lparr> title := X \<rparr>"
    using assms(2) by (simp add: updatedBook_def cond_opt_def)
  ultimately show ?thesis using bs b pre by auto
qed

theorem updateBook_title_only_witness:
  "(\<exists>b \<in> set books. id_book b = ''d26fd654-f4d4-4b98-91e5-6d8c9569aed6'')
   \<and> ''Bayou Folk'' \<noteq> []
   \<and> (\<exists>pre b post. books = pre @ b # post
         \<and> id_book b = ''d26fd654-f4d4-4b98-91e5-6d8c9569aed6''
         \<and> updateBook books (example_update\<lparr> upd_title := Val ''Bayou Folk'' \<rparr>)
             = (Some (b\<lparr> title := ''Bayou Folk'' \<rparr>), pre @ b\<lparr> title := ''Bayou Folk'' \<rparr> # post))"
proof -
  let ?i = "''d26fd654-f4d4-4b98-91e5-6d8c9569aed6''"
  have h: "\<exists>b \<in> set books. id_book b = ?i"
    by (simp add: books_def)
  have x: "''Bayou Folk'' \<noteq> []"
    by simp
  have a: "example_update\<lparr> upd_title := Val ''Bayou Folk'' \<rparr> =
      \<lparr> upd_id = ?i, upd_title = Val ''Bayou Folk'', upd_description = Undefined,
        upd_isbn = Undefined, upd_publisher = Undefined, upd_genre = Undefined,
        upd_publishYear = Undefined, upd_authorName = Undefined,
        upd_authorNationality = Undefined \<rparr>"
    by (simp add: example_update_def)
  from updateBook_title_only[OF h x] h x show ?thesis
    unfolding a by blast
qed

text \<open>
  C7. When some stored book carries the \<open>id\<close> of the arguments, \<open>updateBook\<close> replaces a field
  of the first such book exactly when the supplied value is present and truthy: a non-empty
  string, a number other than zero, an enumeration value. For an absent, a \<open>null\<close>, an
  empty-string or a zero argument the stored value stays. The \<open>id\<close> stays, and the merged
  book is written at the position of the old one.
\<close>

theorem updateBook_replaces_truthy_fields:
  assumes "\<exists>b \<in> set bs. id_book b = upd_id args"
  shows "\<exists>pre b post b'.
           bs = pre @ b # post
         \<and> id_book b = upd_id args
         \<and> (\<forall>x \<in> set pre. id_book x \<noteq> upd_id args)
         \<and> updateBook bs args = (Some b', pre @ b' # post)
         \<and> id_book b' = id_book b
         \<and> title b' = (case upd_title args of Val (c # cs) \<Rightarrow> c # cs | _ \<Rightarrow> title b)
         \<and> description b' =
              (case upd_description args of Val (c # cs) \<Rightarrow> Val (c # cs) | _ \<Rightarrow> description b)
         \<and> isbn b' = (case upd_isbn args of Val (c # cs) \<Rightarrow> Val (c # cs) | _ \<Rightarrow> isbn b)
         \<and> publisher b' = (case upd_publisher args of Val (c # cs) \<Rightarrow> c # cs | _ \<Rightarrow> publisher b)
         \<and> genre b' = (case upd_genre args of Val g \<Rightarrow> g | _ \<Rightarrow> genre b)
         \<and> publishYear b' =
              (case upd_publishYear args of
                 Val n \<Rightarrow> if n = 0 then publishYear b else Val n
               | _ \<Rightarrow> publishYear b)
         \<and> authorName b' = (case upd_authorName args of Val (c # cs) \<Rightarrow> c # cs | _ \<Rightarrow> authorName b)
         \<and> authorNationality b' =
              (case upd_authorNationality args of
                 Val (c # cs) \<Rightarrow> Val (c # cs)
               | _ \<Rightarrow> authorNationality b)"
proof -
  from findIndex_split[OF assms] obtain pre b post where
    bs: "bs = pre @ b # post" and b: "id_book b = upd_id args"
    and pre: "\<forall>x \<in> set pre. id_book x \<noteq> upd_id args"
    by blast
  define b' where "b' = updatedBook b args"
  have upd: "updateBook bs args = (Some b', pre @ b' # post)"
    unfolding bs b'_def using pre b by (rule updateBook_split)
  have i: "id_book b' = id_book b"
    by (simp add: b'_def id_book_updatedBook)
  have str_req: "cond_req truthy_string a old = (case a of Val (c # cs) \<Rightarrow> c # cs | _ \<Rightarrow> old)"
    for a old
    by (cases a) (auto split: list.splits)
  have str_opt: "cond_opt truthy_string a old = (case a of Val (c # cs) \<Rightarrow> Val (c # cs) | _ \<Rightarrow> old)"
    for a old
    by (cases a) (auto simp: cond_opt_def split: list.splits)
  have gen: "cond_req truthy_genre a old = (case a of Val g \<Rightarrow> g | _ \<Rightarrow> old)" for a old
    by (cases a) auto
  have yr: "cond_opt truthy_int a old = (case a of Val n \<Rightarrow> if n = 0 then old else Val n | _ \<Rightarrow> old)"
    for a old
    by (cases a) (auto simp: cond_opt_def)
  have f1: "title b' = (case upd_title args of Val (c # cs) \<Rightarrow> c # cs | _ \<Rightarrow> title b)"
    by (simp add: b'_def updatedBook_def str_req)
  have f2: "description b' =
              (case upd_description args of Val (c # cs) \<Rightarrow> Val (c # cs) | _ \<Rightarrow> description b)"
    by (simp add: b'_def updatedBook_def str_opt)
  have f3: "isbn b' = (case upd_isbn args of Val (c # cs) \<Rightarrow> Val (c # cs) | _ \<Rightarrow> isbn b)"
    by (simp add: b'_def updatedBook_def str_opt)
  have f4: "publisher b' = (case upd_publisher args of Val (c # cs) \<Rightarrow> c # cs | _ \<Rightarrow> publisher b)"
    by (simp add: b'_def updatedBook_def str_req)
  have f5: "genre b' = (case upd_genre args of Val g \<Rightarrow> g | _ \<Rightarrow> genre b)"
    by (simp add: b'_def updatedBook_def gen)
  have f6: "publishYear b' =
              (case upd_publishYear args of
                 Val n \<Rightarrow> if n = 0 then publishYear b else Val n
               | _ \<Rightarrow> publishYear b)"
    by (simp add: b'_def updatedBook_def yr)
  have f7: "authorName b' = (case upd_authorName args of Val (c # cs) \<Rightarrow> c # cs | _ \<Rightarrow> authorName b)"
    by (simp add: b'_def updatedBook_def str_req)
  have f8: "authorNationality b' =
              (case upd_authorNationality args of
                 Val (c # cs) \<Rightarrow> Val (c # cs)
               | _ \<Rightarrow> authorNationality b)"
    by (simp add: b'_def updatedBook_def str_opt)
  from bs b pre upd i f1 f2 f3 f4 f5 f6 f7 f8 show ?thesis by blast
qed

theorem updateBook_replaces_truthy_fields_witness:
  "(\<exists>b \<in> set books. id_book b = upd_id falsy_update)
   \<and> (\<exists>b'. updateBook books falsy_update = (Some b', [hd books, b'])
         \<and> id_book b' = ''35b19ead-3aa9-415e-a46d-6621e1604119''
         \<and> title b' = ''City of Glass''
         \<and> isbn b' = Val ''978-0140097313''
         \<and> publisher b' = ''Penguin''
         \<and> genre b' = NONE
         \<and> publishYear b' = Val 2009
         \<and> authorName b' = ''Paul Auster''
         \<and> authorNationality b' = Val ''Estadounidense'')"
proof -
  let ?i = "''35b19ead-3aa9-415e-a46d-6621e1604119''"
  have u: "upd_id falsy_update = ?i"
    by (simp add: falsy_update_def)
  have h: "\<exists>b \<in> set books. id_book b = upd_id falsy_update"
    by (simp add: books_def falsy_update_def)
  from updateBook_replaces_truthy_fields[OF h] obtain pre b post b' where
    bs: "books = pre @ b # post" and b: "id_book b = upd_id falsy_update"
    and pre: "\<forall>x \<in> set pre. id_book x \<noteq> upd_id falsy_update"
    and upd: "updateBook books falsy_update = (Some b', pre @ b' # post)"
    and i: "id_book b' = id_book b"
    and f1: "title b' = (case upd_title falsy_update of Val (c # cs) \<Rightarrow> c # cs | _ \<Rightarrow> title b)"
    and f3: "isbn b' = (case upd_isbn falsy_update of Val (c # cs) \<Rightarrow> Val (c # cs) | _ \<Rightarrow> isbn b)"
    and f4: "publisher b' =
               (case upd_publisher falsy_update of Val (c # cs) \<Rightarrow> c # cs | _ \<Rightarrow> publisher b)"
    and f5: "genre b' = (case upd_genre falsy_update of Val g \<Rightarrow> g | _ \<Rightarrow> genre b)"
    and f6: "publishYear b' =
              (case upd_publishYear falsy_update of
                 Val n \<Rightarrow> if n = 0 then publishYear b else Val n
               | _ \<Rightarrow> publishYear b)"
    and f7: "authorName b' =
               (case upd_authorName falsy_update of Val (c # cs) \<Rightarrow> c # cs | _ \<Rightarrow> authorName b)"
    and f8: "authorNationality b' =
              (case upd_authorNationality falsy_update of
                 Val (c # cs) \<Rightarrow> Val (c # cs)
               | _ \<Rightarrow> authorNationality b)"
    by blast
  have "pre @ b # post = [hd books] @ (last books) # []"
    using bs books_split by simp
  moreover have "id_book (last books) = upd_id falsy_update"
    and "\<forall>x \<in> set [hd books]. id_book x \<noteq> upd_id falsy_update"
    by (simp_all add: books_def falsy_update_def)
  ultimately have "pre = [hd books] \<and> b = last books \<and> post = []"
    using b pre by (intro first_split_unique[where P = "\<lambda>x. id_book x = upd_id falsy_update"])
  then have p: "pre = [hd books]" and b2: "b = last books" and q: "post = []"
    by simp_all
  have old: "title (last books) = ''City of Glass''" "isbn (last books) = Val ''978-0140097313''"
    "publishYear (last books) = Val 2009" "authorName (last books) = ''Paul Auster''"
    "authorNationality (last books) = Val ''Estadounidense''"
    "id_book (last books) = ?i"
    by (simp_all add: books_def)
  have new: "upd_title falsy_update = Val []" "upd_isbn falsy_update = Null"
    "upd_publisher falsy_update = Val ''Penguin''" "upd_genre falsy_update = Val NONE"
    "upd_publishYear falsy_update = Val 0" "upd_authorName falsy_update = Undefined"
    "upd_authorNationality falsy_update = Val []"
    by (simp_all add: falsy_update_def)
  from upd have "updateBook books falsy_update = (Some b', [hd books, b'])"
    by (simp add: p q)
  moreover from i have "id_book b' = ?i" by (simp add: b2 old)
  moreover from f1 have "title b' = ''City of Glass''" by (simp add: b2 old new)
  moreover from f3 have "isbn b' = Val ''978-0140097313''" by (simp add: b2 old new)
  moreover from f4 have "publisher b' = ''Penguin''" by (simp add: new)
  moreover from f5 have "genre b' = NONE" by (simp add: new)
  moreover from f6 have "publishYear b' = Val 2009" by (simp add: b2 old new)
  moreover from f7 have "authorName b' = ''Paul Auster''" by (simp add: b2 old new)
  moreover from f8 have "authorNationality b' = Val ''Estadounidense''" by (simp add: b2 old new)
  ultimately show ?thesis using h by blast
qed

text \<open>
  C8. \<open>updateBook\<close> checks no title: there is a reachable store with pairwise distinct
  titles and an argument on which \<open>updateBook\<close> succeeds and leaves two books, of different
  identifiers, with one title. The store is the seed data, the argument gives the first
  seed book the title of the second.
\<close>

theorem updateBook_can_duplicate_title:
  "\<exists>bs args b' bs' j k.
      reachable bs
    \<and> distinct (map title bs)
    \<and> updateBook bs args = (Some b', bs')
    \<and> j < k \<and> k < length bs'
    \<and> id_book (bs' ! j) \<noteq> id_book (bs' ! k)
    \<and> title (bs' ! j) = title (bs' ! k)"
proof -
  let ?b' = "(hd books)\<lparr> title := ''City of Glass'' \<rparr>"
  let ?bs' = "[?b', last books]"
  have "reachable books"
    by (rule reachable.init)
  moreover have "distinct (map title books)"
    by (simp add: books_def)
  moreover have "updateBook books example_update = (Some ?b', ?bs')"
    by (rule updateBook_seed_duplicate)
  moreover have "(0::nat) < 1" and "1 < length ?bs'"
    by simp_all
  moreover have "id_book (?bs' ! 0) \<noteq> id_book (?bs' ! 1)"
    by (simp add: books_def)
  moreover have "title (?bs' ! 0) = title (?bs' ! 1)"
    by (simp add: books_def)
  ultimately show ?thesis by blast
qed

text \<open>
  C9. The read operations \<open>getBooks()\<close>, \<open>getBooksCount()\<close>, \<open>getBook(id)\<close> and the field
  resolver \<open>Book.author\<close> leave the store as it was, for every store and argument.
\<close>

theorem reads_leave_store_unchanged:
  "snd (getBooks bs) = bs
   \<and> snd (getBooksCount bs) = bs
   \<and> snd (getBook bs i) = bs
   \<and> snd (author bs root) = bs"
  by (simp add: getBooks_def getBooksCount_def getBook_def author_def)

text \<open>
  C10. \<open>addBook\<close> throws, and then throws its \<open>BAD_USER_INPUT\<close> error, if and only if some
  stored book has exactly the title of the arguments, compared code unit by code unit. It
  validates nothing else: otherwise the book is stored with the arguments as they are. On the
  seed data an empty title is accepted, and so is \<open>the awakening\<close>, which differs from the
  stored \<open>The Awakening\<close> in letter case only.
\<close>

theorem addBook_rejects_exactly_equal_titles:
  "(fst (addBook bs args uuid) = Inl title_unique_error) = (\<exists>b \<in> set bs. title b = title args)
   \<and> (\<exists>e. fst (addBook bs args uuid) = Inl e) = (\<exists>b \<in> set bs. title b = title args)
   \<and> ((\<forall>b \<in> set bs. title b \<noteq> title args) \<longrightarrow>
        addBook bs args uuid
          = (Inr (AddBookArgs.extend args (Book.fields uuid)),
             bs @ [AddBookArgs.extend args (Book.fields uuid)]))
   \<and> addBook books (args\<lparr> title := [] \<rparr>) uuid
        = (Inr (AddBookArgs.extend (args\<lparr> title := [] \<rparr>) (Book.fields uuid)),
           books @ [AddBookArgs.extend (args\<lparr> title := [] \<rparr>) (Book.fields uuid)])
   \<and> addBook books (args\<lparr> title := ''the awakening'' \<rparr>) uuid
        = (Inr (AddBookArgs.extend (args\<lparr> title := ''the awakening'' \<rparr>) (Book.fields uuid)),
           books @ [AddBookArgs.extend (args\<lparr> title := ''the awakening'' \<rparr>) (Book.fields uuid)])"
proof -
  have a: "(fst (addBook bs args uuid) = Inl title_unique_error)
             = (\<exists>b \<in> set bs. title b = title args)"
    by (simp add: addBook_cases)
  have b: "(\<exists>e. fst (addBook bs args uuid) = Inl e) = (\<exists>b \<in> set bs. title b = title args)"
    by (simp add: addBook_cases)
  have c: "(\<forall>b \<in> set bs. title b \<noteq> title args) \<longrightarrow>
        addBook bs args uuid
          = (Inr (AddBookArgs.extend args (Book.fields uuid)),
             bs @ [AddBookArgs.extend args (Book.fields uuid)])"
    by (simp add: addBook_cases)
  have "\<forall>b \<in> set books. title b \<noteq> []"
    by (simp add: books_def)
  then have d: "addBook books (args\<lparr> title := [] \<rparr>) uuid
        = (Inr (AddBookArgs.extend (args\<lparr> title := [] \<rparr>) (Book.fields uuid)),
           books @ [AddBookArgs.extend (args\<lparr> title := [] \<rparr>) (Book.fields uuid)])"
    by (simp add: addBook_cases)
  have "\<forall>b \<in> set books. title b \<noteq> ''the awakening''"
    by (simp add: books_def)
  then have e: "addBook books (args\<lparr> title := ''the awakening'' \<rparr>) uuid
        = (Inr (AddBookArgs.extend (args\<lparr> title := ''the awakening'' \<rparr>) (Book.fields uuid)),
           books @ [AddBookArgs.extend (args\<lparr> title := ''the awakening'' \<rparr>) (Book.fields uuid)])"
    by (simp add: addBook_cases)
  from a b c d e show ?thesis by blast
qed

theorem addBook_rejects_exactly_equal_titles_witness:
  "\<not> (\<exists>b \<in> set books. title b = title example_args)
   \<and> fst (addBook books example_args example_uuid) \<noteq> Inl title_unique_error
   \<and> snd (addBook books example_args example_uuid)
        = books @ [AddBookArgs.extend example_args (Book.fields example_uuid)]
   \<and> (\<exists>b \<in> set books. title b = title (example_args\<lparr> title := ''The Awakening'' \<rparr>))
   \<and> fst (addBook books (example_args\<lparr> title := ''The Awakening'' \<rparr>) example_uuid)
        = Inl title_unique_error"
proof -
  have h: "\<forall>b \<in> set books. title b \<noteq> title example_args"
    by (simp add: books_def example_args_def)
  have g: "\<exists>b \<in> set books. title b = title (example_args\<lparr> title := ''The Awakening'' \<rparr>)"
    by (simp add: books_def)
  from addBook_rejects_exactly_equal_titles[of books example_args example_uuid] h
  have "fst (addBook books example_args example_uuid) \<noteq> Inl title_unique_error"
    and "snd (addBook books example_args example_uuid)
        = books @ [AddBookArgs.extend example_args (Book.fields example_uuid)]"
    by simp_all
  moreover from addBook_rejects_exactly_equal_titles
      [of books "example_args\<lparr> title := ''The Awakening'' \<rparr>" example_uuid] g
  have "fst (addBook books (example_args\<lparr> title := ''The Awakening'' \<rparr>) example_uuid)
        = Inl title_unique_error"
    by blast
  ultimately show ?thesis using h g by blast
qed

end
